theory Spec2Isabelle
  imports Main "HOL-Library.AList"
begin

section \<open>The zenblog client SDK: data model\<close>

text \<open>
  The two client factories of the repository are embedded here: \<open>createClient\<close> (the public
  client, with its helpers \<open>logError\<close>, \<open>createDebugger\<close>, \<open>getConfig\<close> and \<open>throwError\<close>) and
  \<open>createZenblogClient\<close> (the management client of \<open>packages/zenblog/src/index.ts\<close>, with
  \<open>createFetcher\<close>).

  Effects are explicit. Every function that logs or calls \<open>fetch\<close> takes the trace of
  events so far and returns the extended trace; every function that can throw returns a
  sum, \<open>Inl\<close> holding the thrown value. An \<open>async\<close> function that rejects is a function that
  returns \<open>Inl\<close>.
\<close>

subsection \<open>JavaScript values read from a response\<close>

text \<open>
  What \<open>res.json()\<close> yields, plus \<open>undefined\<close>, which a property read of a missing field
  yields. No operation of either client looks inside a number, so numbers are integers
  here. The property list of \<open>JObj\<close> holds the own properties of the object in order.
\<close>

datatype js_value =
    JUndefined
  | JNull
  | JBool bool
  | JNum int
  | JStr string
  | JArr "js_value list"
  | JObj "(string \<times> js_value) list"

subsection \<open>Requests and responses\<close>

text \<open>
  \<open>RequestInit\<close> with the three fields the clients set; each is optional. The field
  \<open>method\<close> is \<open>init_method\<close> here. \<open>headers\<close> is the plain-object form of the headers, a
  list of name and value pairs.
\<close>

record request_init =
  init_method :: "string option"
  cache :: "string option"
  headers :: "(string \<times> string) list option"

text \<open>
  A \<open>Response\<close>. \<open>res_headers\<close> holds the header list under lower-cased names, as a
  \<open>Headers\<close> object stores it. \<open>json_body\<close> is what \<open>res.json()\<close> resolves to; it is
  \<open>None\<close> when the body is not valid JSON, where \<open>res.json()\<close> rejects with a SyntaxError.
\<close>

record response =
  status :: nat
  statusText :: string
  res_headers :: "(string \<times> string) list"
  json_body :: "js_value option"

text \<open>\<open>res.ok\<close>: the status is in the range 200 to 299.\<close>

definition ok :: "response \<Rightarrow> bool" where
  "ok res = (200 \<le> status res \<and> status res \<le> 299)"

text \<open>\<open>res.headers.get(name)\<close>, for a lower-case \<open>name\<close>: \<open>null\<close> is \<open>None\<close>.\<close>

definition headers_get :: "response \<Rightarrow> string \<Rightarrow> string option" where
  "headers_get res name = map_of (res_headers res) name"

text \<open>The \<open>{ api }\<close> object of \<open>getConfig\<close>.\<close>

record config =
  api :: string

subsection \<open>Thrown values, log arguments, events\<close>

text \<open>
  \<open>arg\<close> is a value passed to \<open>console.log\<close>, \<open>console.error\<close> or to \<open>throwError\<close> after the
  message. \<open>Error m ctx\<close> is an \<open>Error\<close> object with message \<open>m\<close> that carries the values
  \<open>ctx\<close> with it; \<open>new Error(m)\<close> is \<open>Error m []\<close>. \<open>SyntaxError\<close> is what \<open>res.json()\<close>
  rejects with, \<open>TypeError\<close> what a property read of \<open>null\<close> or \<open>undefined\<close> and a call of
  a non-function throw.
\<close>

datatype arg =
    AStr string
  | AJson js_value
  | AConfig config
  | AInit request_init
  | ASummary nat string bool js_value
  | AResponse response
  | AThrown thrown
and thrown =
    Error string "arg list"
  | TypeError
  | SyntaxError

text \<open>What the transport \<open>fetch(URL, init)\<close> does: it rejects, or resolves to a response.\<close>

datatype fetch_outcome = Rejected thrown | Resolved response

type_synonym transport = "string \<Rightarrow> request_init \<Rightarrow> fetch_outcome"

datatype event =
    ConsoleLog "arg list"
  | ConsoleError "arg list"
  | Fetch string request_init

type_synonym trace = "event list"

text \<open>The network calls of a trace, in order.\<close>

fun fetches :: "trace \<Rightarrow> (string \<times> request_init) list" where
  "fetches [] = []"
| "fetches (Fetch u i # es) = (u, i) # fetches es"
| "fetches (_ # es) = fetches es"

text \<open>A trace without its \<open>console.log\<close> events.\<close>

fun without_logs :: "trace \<Rightarrow> trace" where
  "without_logs [] = []"
| "without_logs (ConsoleLog _ # es) = without_logs es"
| "without_logs (e # es) = e # without_logs es"

section \<open>The public client\<close>

text \<open>The two emoji of the log tags, as their UTF-8 bytes.\<close>

definition orange :: string where
  "orange = [CHR 0xF0, CHR 0x9F, CHR 0x8D, CHR 0x8A]"

definition siren :: string where
  "siren = [CHR 0xF0, CHR 0x9F, CHR 0x9A, CHR 0xA8]"

definition logError :: "arg list \<Rightarrow> trace \<Rightarrow> trace" where
  "logError args w = w @ [ConsoleError (AStr (''['' @ orange @ ''] '') # args)]"

definition createDebugger :: "bool \<Rightarrow> arg list \<Rightarrow> trace \<Rightarrow> trace" where
  "createDebugger debug args w =
     (if debug then w @ [ConsoleLog (AStr (''['' @ orange @ ''] '') # args)] else w)"

text \<open>\<open>if (url)\<close>: a missing and an empty \<open>url\<close> are both falsy.\<close>

definition getConfig :: "string option \<Rightarrow> config" where
  "getConfig url =
     (case url of
        Some u \<Rightarrow> if u \<noteq> [] then \<lparr>api = u\<rparr> else \<lparr>api = ''https://zenblog.com/api/public''\<rparr>
      | None \<Rightarrow> \<lparr>api = ''https://zenblog.com/api/public''\<rparr>)"

text \<open>\<open>throwError\<close> never returns: it logs and yields the thrown value.\<close>

definition throwError :: "string \<Rightarrow> arg list \<Rightarrow> trace \<Rightarrow> thrown \<times> trace" where
  "throwError msg args w = (Error (''['' @ siren @ ''] '' @ msg) [], logError (AStr msg # args) w)"

text \<open>\<open>CreateClientOpts\<close>; the field \<open>_url\<close> is \<open>url\<close> here.\<close>

record create_client_opts =
  blogId :: string
  url :: "string option"
  debug :: "bool option"

text \<open>What the closures of \<open>createClient\<close> capture.\<close>

record client =
  c_config :: config
  c_blogId :: string
  c_debug :: bool

text \<open>\<open>debug || false\<close>.\<close>

definition or_false :: "bool option \<Rightarrow> bool" where
  "or_false d = (case d of Some b \<Rightarrow> b | None \<Rightarrow> False)"

definition createClient :: "create_client_opts \<Rightarrow> trace \<Rightarrow> (thrown + client) \<times> trace" where
  "createClient opts w =
     (let config = getConfig (url opts);
          log = createDebugger (or_false (debug opts));
          w1 = log [AStr ''createClient '', AConfig config] w
      in if blogId opts = []
         then (case throwError ''blogId is required'' [] w1 of (e, w2) \<Rightarrow> (Inl e, w2))
         else (Inr \<lparr>c_config = config, c_blogId = blogId opts, c_debug = or_false (debug opts)\<rparr>, w1))"

text \<open>The inner \<open>_fetch\<close> of \<open>createClient\<close>.\<close>

definition createClient_fetch ::
  "client \<Rightarrow> transport \<Rightarrow> string \<Rightarrow> request_init \<Rightarrow> trace \<Rightarrow> (thrown + js_value) \<times> trace" where
  "createClient_fetch c fetch path opts w =
     (let log = createDebugger (c_debug c);
          URL = api (c_config c) @ ''/'' @ c_blogId c @ ''/'' @ path;
          w1 = log [AStr ''fetching '', AStr URL, AInit opts] w;
          w2 = w1 @ [Fetch URL opts]
      in case fetch URL opts of
           Rejected e \<Rightarrow> (Inl e, w2)
         | Resolved res \<Rightarrow>
             (case json_body res of
                None \<Rightarrow> (Inl SyntaxError, w2)
              | Some json \<Rightarrow>
                  (let w3 = log [AStr ''res'',
                                 ASummary (status res) (statusText res) (ok res) json] w2
                   in if \<not> ok res
                      then (case throwError ''Error fetching data from API'' [AResponse res] w3 of
                              (e, w4) \<Rightarrow> (Inl e, w4))
                      else (Inr json, w3))))"

text \<open>
  A property read \<open>v.k\<close>, for a name \<open>k\<close> that no prototype defines: it throws on \<open>null\<close>
  and \<open>undefined\<close>, and is \<open>undefined\<close> where the value has no such own property.
\<close>

fun get_prop :: "js_value \<Rightarrow> string \<Rightarrow> thrown + js_value" where
  "get_prop JUndefined k = Inl TypeError"
| "get_prop JNull k = Inl TypeError"
| "get_prop (JObj fs) k = Inr (case map_of fs k of Some v \<Rightarrow> v | None \<Rightarrow> JUndefined)"
| "get_prop _ k = Inr JUndefined"

text \<open>The callback of \<open>posts.map\<close> in \<open>getAll\<close>: five reads, then the object literal.\<close>

definition normalize_post :: "js_value \<Rightarrow> thrown + js_value" where
  "normalize_post post =
     (case get_prop post ''slug'' of Inl e \<Rightarrow> Inl e | Inr slug \<Rightarrow>
      case get_prop post ''title'' of Inl e \<Rightarrow> Inl e | Inr title \<Rightarrow>
      case get_prop post ''created_at'' of Inl e \<Rightarrow> Inl e | Inr created_at \<Rightarrow>
      case get_prop post ''updated_at'' of Inl e \<Rightarrow> Inl e | Inr updated_at \<Rightarrow>
      case get_prop post ''cover_image'' of Inl e \<Rightarrow> Inl e | Inr cover_image \<Rightarrow>
        Inr (JObj [(''slug'', slug), (''title'', title), (''created_at'', created_at),
                   (''updated_at'', updated_at), (''cover_image'', cover_image)]))"

text \<open>\<open>Array.prototype.map\<close> with a callback that can throw: the first throw ends it.\<close>

fun map_throwing :: "('a \<Rightarrow> thrown + 'b) \<Rightarrow> 'a list \<Rightarrow> thrown + 'b list" where
  "map_throwing f [] = Inr []"
| "map_throwing f (x # xs) =
     (case f x of
        Inl e \<Rightarrow> Inl e
      | Inr y \<Rightarrow> (case map_throwing f xs of Inl e \<Rightarrow> Inl e | Inr ys \<Rightarrow> Inr (y # ys)))"

text \<open>The \<open>RequestInit\<close> both operations of the public client pass.\<close>

definition public_init :: request_init where
  "public_init = \<lparr>init_method = Some ''GET'', cache = None,
                  headers = Some [(''Content-Type'', ''application/json'')]\<rparr>"

text \<open>\<open>posts.map(...)\<close> on a value that is not an array is a TypeError.\<close>

definition getAll :: "client \<Rightarrow> transport \<Rightarrow> trace \<Rightarrow> (thrown + js_value) \<times> trace" where
  "getAll c fetch w =
     (case createClient_fetch c fetch ''posts'' public_init w of
        (Inl e, w1) \<Rightarrow> (Inl e, w1)
      | (Inr posts, w1) \<Rightarrow>
          (let w2 = createDebugger (c_debug c) [AStr ''posts.getAll'', AJson posts] w1
           in case posts of
                JArr ps \<Rightarrow>
                  (case map_throwing normalize_post ps of
                     Inl e \<Rightarrow> (Inl e, w2)
                   | Inr normalizedPosts \<Rightarrow> (Inr (JArr normalizedPosts), w2))
              | _ \<Rightarrow> (Inl TypeError, w2)))"

definition getBySlug ::
  "client \<Rightarrow> transport \<Rightarrow> string \<Rightarrow> trace \<Rightarrow> (thrown + js_value) \<times> trace" where
  "getBySlug c fetch slug w = createClient_fetch c fetch (''post/'' @ slug) public_init w"

section \<open>The management client\<close>

subsection \<open>The helper module \<open>./lib\<close>\<close>

text \<open>
  \<open>index.ts\<close> imports \<open>createLogger\<close> and \<open>throwError\<close> from \<open>./lib\<close>, and the type
  \<open>CreateClientOpts\<close> from \<open>./lib/types\<close>; neither file is among the sources.
\<close>

text \<open>
  Modelled from the spec: \<open>createLogger\<close> of \<open>./lib\<close> is missing. "Debug logging: when
  enabled via configuration, every request (URL + options) and every response (status, ok
  flag, parsed body) is logged to a side channel; this is observability only and never
  affects control flow or return values."
\<close>

definition createLogger :: "bool \<Rightarrow> arg list \<Rightarrow> trace \<Rightarrow> trace" where
  "createLogger enabled args w = (if enabled then w @ [ConsoleLog args] else w)"

text \<open>
  Modelled from the spec: \<open>throwError\<close> of \<open>./lib\<close> is missing. "A single shared routine
  formats a message, performs the side-channel log, and throws a generic error object
  wrapping the message and any additional diagnostic payload (e.g., the raw response)."
  The message is kept as it is given. Like \<open>throwError\<close> of the public client, it never
  returns.
\<close>

definition lib_throwError :: "string \<Rightarrow> arg list \<Rightarrow> trace \<Rightarrow> thrown \<times> trace" where
  "lib_throwError msg args w = (Error msg args, w @ [ConsoleError (AStr msg # args)])"

text \<open>
  Modelled from the spec: the type \<open>CreateClientOpts\<close> of \<open>./lib/types\<close> is missing. The
  management configuration is "\<open>{apiBaseUrl, accessToken, debug}\<close>"; the fields are those
  that \<open>createZenblogClient\<close> destructures, \<open>accessToken\<close>, \<open>_url\<close> and \<open>_debug\<close>, the last two
  optional.
\<close>

record create_zenblog_opts =
  accessToken :: string
  z_url :: "string option"
  z_debug :: "bool option"

subsection \<open>\<open>createFetcher\<close>\<close>

text \<open>What \<open>createFetcher\<close> and its \<open>_fetch\<close> capture: the configuration and the logger.\<close>

record fetcher_config =
  f_api :: string
  f_accessToken :: string
  f_debug :: bool

text \<open>
  Object spread \<open>{ ...target, ...source }\<close>: each property of the source is set on the
  target in order, replacing the value of a name that is there and adding a new name at
  the end.
\<close>

definition spread :: "(string \<times> string) list \<Rightarrow> (string \<times> string) list \<Rightarrow> (string \<times> string) list" where
  "spread target source = fold (\<lambda>(k, v). AList.update k v) source target"

text \<open>The two headers that \<open>_fetch\<close> puts before the per-call headers.\<close>

definition default_headers :: "string \<Rightarrow> (string \<times> string) list" where
  "default_headers token =
     [(''authorization'', ''Bearer '' @ token), (''Content-Type'', ''application/json'')]"

text \<open>\<open>reqOpts\<close>: spreading an absent \<open>opts.headers\<close> adds nothing.\<close>

definition reqOpts :: "fetcher_config \<Rightarrow> request_init \<Rightarrow> request_init" where
  "reqOpts cfg opts =
     opts\<lparr>headers := Some (spread (default_headers (f_accessToken cfg))
                               (case headers opts of None \<Rightarrow> [] | Some hs \<Rightarrow> hs))\<rparr>"

definition subscription_message :: string where
  "subscription_message =
     ''Zenblog subscription is inactive. Go to https://zenblog.com to subscribe.''"

text \<open>The \<open>try\<close> block of \<open>_fetch\<close>.\<close>

definition createFetcher_try ::
  "fetcher_config \<Rightarrow> transport \<Rightarrow> string \<Rightarrow> request_init \<Rightarrow> trace \<Rightarrow> (thrown + js_value) \<times> trace" where
  "createFetcher_try cfg fetch path opts w =
     (let log = createLogger (f_debug cfg);
          URL = f_api cfg @ ''/'' @ path;
          w1 = log [AStr ''fetch '', AStr URL, AInit (reqOpts cfg opts)] w;
          w2 = w1 @ [Fetch URL (reqOpts cfg opts)]
      in case fetch URL (reqOpts cfg opts) of
           Rejected e \<Rightarrow> (Inl e, w2)
         | Resolved res \<Rightarrow>
             (case json_body res of
                None \<Rightarrow> (Inl SyntaxError, w2)
              | Some json \<Rightarrow>
                  if headers_get res ''zenblog-subscription-status'' = Some ''inactive''
                  then (case lib_throwError subscription_message [] w2 of
                          (e, w3) \<Rightarrow> (Inl e, w3))
                  else (let w3 = log [AStr ''res'',
                                      ASummary (status res) (statusText res) (ok res) json] w2
                        in if \<not> ok res
                           then (case lib_throwError ''Error fetching data from API''
                                        [AResponse res] w3 of
                                   (e, w4) \<Rightarrow> (Inl e, w4))
                           else (Inr json, w3))))"

text \<open>\<open>_fetch\<close>: the \<open>catch\<close> clause logs what was thrown and throws it again.\<close>

definition createFetcher ::
  "fetcher_config \<Rightarrow> transport \<Rightarrow> string \<Rightarrow> request_init \<Rightarrow> trace \<Rightarrow> (thrown + js_value) \<times> trace" where
  "createFetcher cfg fetch path opts w =
     (case createFetcher_try cfg fetch path opts w of
        (Inl error, w1) \<Rightarrow> (Inl error, w1 @ [ConsoleError [AStr ''[Zenblog Error] '', AThrown error]])
      | (Inr json, w1) \<Rightarrow> (Inr json, w1))"

subsection \<open>\<open>createZenblogClient\<close>\<close>

text \<open>
  The first argument is \<open>typeof window !== "undefined"\<close>. \<open>!accessToken\<close> holds of the
  empty string. \<open>_url || "https://api.zenblog.com"\<close> takes the default for a missing and
  for an empty \<open>_url\<close>.
\<close>

definition createZenblogClient ::
  "bool \<Rightarrow> create_zenblog_opts \<Rightarrow> trace \<Rightarrow> (thrown + fetcher_config) \<times> trace" where
  "createZenblogClient window_defined opts w =
     (if window_defined
      then (case lib_throwError
                   (''Zenblog is not supported in the browser. '' @
                    ''Make sure you don't leak your access token.'') [] w of
              (e, w1) \<Rightarrow> (Inl e, w1))
      else if accessToken opts = []
      then (case lib_throwError ''accessToken is required'' [] w of (e, w1) \<Rightarrow> (Inl e, w1))
      else (Inr \<lparr>f_api = (case z_url opts of
                            Some u \<Rightarrow> if u \<noteq> [] then u else ''https://api.zenblog.com''
                          | None \<Rightarrow> ''https://api.zenblog.com''),
                 f_accessToken = accessToken opts,
                 f_debug = or_false (z_debug opts)\<rparr>, w))"

text \<open>\<open>ReqOpts\<close>, the optional second argument of \<open>list\<close> and \<open>get\<close>.\<close>

record req_opts =
  ro_cache :: "string option"

text \<open>\<open>opts?.cache || "default"\<close>.\<close>

definition cache_or_default :: "req_opts option \<Rightarrow> string" where
  "cache_or_default opts =
     (case opts of
        None \<Rightarrow> ''default''
      | Some ro \<Rightarrow>
          (case ro_cache ro of
             None \<Rightarrow> ''default''
           | Some c \<Rightarrow> if c \<noteq> [] then c else ''default''))"

definition management_init :: "req_opts option \<Rightarrow> request_init" where
  "management_init opts =
     \<lparr>init_method = Some ''GET'', cache = Some (cache_or_default opts), headers = None\<rparr>"

definition posts_list ::
  "fetcher_config \<Rightarrow> transport \<Rightarrow> req_opts option \<Rightarrow> trace \<Rightarrow> (thrown + js_value) \<times> trace" where
  "posts_list cfg fetch opts w =
     (case createFetcher cfg fetch ''posts'' (management_init opts) w of
        (Inl e, w1) \<Rightarrow> (Inl e, w1)
      | (Inr posts, w1) \<Rightarrow>
          (Inr posts, createLogger (f_debug cfg) [AStr ''posts.getAll'', AJson posts] w1))"

definition posts_get ::
  "fetcher_config \<Rightarrow> transport \<Rightarrow> string \<Rightarrow> req_opts option \<Rightarrow> trace \<Rightarrow> (thrown + js_value) \<times> trace" where
  "posts_get cfg fetch slug opts w =
     (case createFetcher cfg fetch (''post/'' @ slug) (management_init opts) w of
        (Inl e, w1) \<Rightarrow> (Inl e, w1)
      | (Inr post, w1) \<Rightarrow>
          (Inr post, createLogger (f_debug cfg) [AStr ''posts.getBySlug'', AJson post] w1))"

section \<open>Vocabulary of the properties\<close>

text \<open>The values an error object carries besides its message.\<close>

fun context_of :: "thrown \<Rightarrow> arg list" where
  "context_of (Error m ctx) = ctx"
| "context_of _ = []"

text \<open>
  A valid post record, after the type \<open>Post\<close>: an object with string fields \<open>slug\<close>,
  \<open>title\<close>, \<open>created_at\<close> and \<open>updated_at\<close>, and a \<open>cover_image\<close> that is a string where it
  is there. Any other field is allowed.
\<close>

fun is_string :: "js_value \<Rightarrow> bool" where
  "is_string (JStr _) = True"
| "is_string _ = False"

definition valid_post :: "js_value \<Rightarrow> bool" where
  "valid_post post =
     (case post of
        JObj fs \<Rightarrow>
          distinct (map fst fs)
          \<and> (case map_of fs ''slug'' of Some v \<Rightarrow> is_string v | None \<Rightarrow> False)
          \<and> (case map_of fs ''title'' of Some v \<Rightarrow> is_string v | None \<Rightarrow> False)
          \<and> (case map_of fs ''created_at'' of Some v \<Rightarrow> is_string v | None \<Rightarrow> False)
          \<and> (case map_of fs ''updated_at'' of Some v \<Rightarrow> is_string v | None \<Rightarrow> False)
          \<and> (case map_of fs ''cover_image'' of Some v \<Rightarrow> is_string v | None \<Rightarrow> True)
      | _ \<Rightarrow> False)"

text \<open>\<open>v\<close> is an object with an own property \<open>k\<close>, whatever its value, \<open>undefined\<close> included.\<close>

fun has_own :: "js_value \<Rightarrow> string \<Rightarrow> bool" where
  "has_own (JObj fs) k = (k \<in> set (map fst fs))"
| "has_own _ k = False"

text \<open>The fields that \<open>getAll\<close> keeps.\<close>

definition post_fields :: "string list" where
  "post_fields = [''slug'', ''title'', ''created_at'', ''updated_at'', ''cover_image'']"

text \<open>
  Two post records for the examples: the first with a cover image and a field that \<open>Post\<close>
  does not have, the second without a cover image and with its fields in another order.
\<close>

definition two_posts :: "js_value list" where
  "two_posts =
     [JObj [(''slug'', JStr ''a''), (''title'', JStr ''A''), (''created_at'', JStr ''t1''),
            (''updated_at'', JStr ''t2''), (''cover_image'', JStr ''a.png''), (''views'', JNum 7)],
      JObj [(''title'', JStr ''B''), (''slug'', JStr ''b''), (''created_at'', JStr ''t3''),
            (''updated_at'', JStr ''t4'')]]"

section \<open>Properties\<close>

subsection \<open>The network calls of each function\<close>

lemma fetches_append: "fetches (a @ b) = fetches a @ fetches b"
  by (induction a rule: fetches.induct) simp_all

lemma fetches_createDebugger: "fetches (createDebugger d args w) = fetches w"
  by (simp add: createDebugger_def fetches_append)

lemma fetches_createLogger: "fetches (createLogger d args w) = fetches w"
  by (simp add: createLogger_def fetches_append)

lemma fetches_throwError: "fetches (snd (throwError msg args w)) = fetches w"
  by (simp add: throwError_def logError_def fetches_append)

lemma fetches_lib_throwError: "fetches (snd (lib_throwError msg args w)) = fetches w"
  by (simp add: lib_throwError_def fetches_append)

lemma fetches_createClient_fetch:
  "fetches (snd (createClient_fetch c fetch path opts w)) =
     fetches w @ [(api (c_config c) @ ''/'' @ c_blogId c @ ''/'' @ path, opts)]"
  by (simp add: createClient_fetch_def Let_def fetches_append fetches_createDebugger
        throwError_def logError_def
      split: fetch_outcome.splits option.splits prod.splits)

lemma fetches_createFetcher:
  "fetches (snd (createFetcher cfg fetch path opts w)) =
     fetches w @ [(f_api cfg @ ''/'' @ path, reqOpts cfg opts)]"
  by (simp add: createFetcher_def createFetcher_try_def Let_def fetches_append fetches_createLogger
        lib_throwError_def
      split: fetch_outcome.splits option.splits prod.splits sum.splits)

lemma fetches_getAll:
  "fetches (snd (getAll c fetch w)) =
     fetches w @ [(api (c_config c) @ ''/'' @ c_blogId c @ ''/posts'', public_init)]"
proof -
  obtain r w1 where f: "createClient_fetch c fetch ''posts'' public_init w = (r, w1)"
    by (cases "createClient_fetch c fetch ''posts'' public_init w")
  have w1: "fetches w1 = fetches w @ [(api (c_config c) @ ''/'' @ c_blogId c @ ''/posts'', public_init)]"
    using fetches_createClient_fetch [of c fetch "''posts''" public_init w] f by simp
  show ?thesis
    by (simp add: getAll_def f w1 Let_def fetches_createDebugger
          split: sum.splits js_value.splits)
qed

subsection \<open>What an operation returns, from what its fetch returns\<close>

lemma getAll_fst:
  "fst (getAll c fetch w) =
     (case fst (createClient_fetch c fetch ''posts'' public_init w) of
        Inl e \<Rightarrow> Inl e
      | Inr posts \<Rightarrow>
          (case posts of
             JArr ps \<Rightarrow>
               (case map_throwing normalize_post ps of
                  Inl e \<Rightarrow> Inl e
                | Inr ns \<Rightarrow> Inr (JArr ns))
           | _ \<Rightarrow> Inl TypeError))"
  by (simp add: getAll_def Let_def split: prod.splits sum.splits js_value.splits)

lemma posts_list_fst:
  "fst (posts_list cfg fetch opts w) = fst (createFetcher cfg fetch ''posts'' (management_init opts) w)"
  by (simp add: posts_list_def split: prod.splits sum.splits)

lemma posts_get_fst:
  "fst (posts_get cfg fetch slug opts w) =
     fst (createFetcher cfg fetch (''post/'' @ slug) (management_init opts) w)"
  by (simp add: posts_get_def split: prod.splits sum.splits)

subsection \<open>The slug of a single-post fetch\<close>

text \<open>
  Claim C10. Neither client checks the slug: for every slug, the empty one included,
  \<open>getBySlug\<close> and \<open>get\<close> issue exactly one request, to the path \<open>post/\<close> followed by the
  slug (after the blog identifier for the public client), whatever the transport answers.
  What they return or throw is decided by the answer to that request alone: a rejection, a
  body that is not valid JSON, the subscription header (management client), the status.
\<close>

theorem slug_not_validated:
  "fetches (snd (getBySlug c fetch slug w)) =
     fetches w @ [(api (c_config c) @ ''/'' @ c_blogId c @ ''/post/'' @ slug, public_init)]
   \<and> fetches (snd (posts_get cfg fetch' slug opts w')) =
     fetches w' @ [(f_api cfg @ ''/post/'' @ slug, reqOpts cfg (management_init opts))]
   \<and> fst (getBySlug c fetch slug w) =
       (case fetch (api (c_config c) @ ''/'' @ c_blogId c @ ''/post/'' @ slug) public_init of
          Rejected e \<Rightarrow> Inl e
        | Resolved res \<Rightarrow>
            (case json_body res of
               None \<Rightarrow> Inl SyntaxError
             | Some json \<Rightarrow>
                 if ok res then Inr json
                 else Inl (Error (''['' @ siren @ ''] Error fetching data from API'') [])))
   \<and> fst (posts_get cfg fetch' slug opts w') =
       (case fetch' (f_api cfg @ ''/post/'' @ slug) (reqOpts cfg (management_init opts)) of
          Rejected e \<Rightarrow> Inl e
        | Resolved res \<Rightarrow>
            (case json_body res of
               None \<Rightarrow> Inl SyntaxError
             | Some json \<Rightarrow>
                 if headers_get res ''zenblog-subscription-status'' = Some ''inactive''
                 then Inl (Error subscription_message [])
                 else if ok res then Inr json
                 else Inl (Error ''Error fetching data from API'' [AResponse res])))"
proof (intro conjI)
  show "fst (getBySlug c fetch slug w) =
       (case fetch (api (c_config c) @ ''/'' @ c_blogId c @ ''/post/'' @ slug) public_init of
          Rejected e \<Rightarrow> Inl e
        | Resolved res \<Rightarrow>
            (case json_body res of
               None \<Rightarrow> Inl SyntaxError
             | Some json \<Rightarrow>
                 if ok res then Inr json
                 else Inl (Error (''['' @ siren @ ''] Error fetching data from API'') [])))"
    by (simp add: getBySlug_def createClient_fetch_def Let_def throwError_def
        split: fetch_outcome.splits option.splits)
  have "fst (createFetcher cfg fetch' (''post/'' @ slug) (management_init opts) w') =
       (case fetch' (f_api cfg @ ''/post/'' @ slug) (reqOpts cfg (management_init opts)) of
          Rejected e \<Rightarrow> Inl e
        | Resolved res \<Rightarrow>
            (case json_body res of
               None \<Rightarrow> Inl SyntaxError
             | Some json \<Rightarrow>
                 if headers_get res ''zenblog-subscription-status'' = Some ''inactive''
                 then Inl (Error subscription_message [])
                 else if ok res then Inr json
                 else Inl (Error ''Error fetching data from API'' [AResponse res])))"
    by (simp add: createFetcher_def createFetcher_try_def Let_def lib_throwError_def
        split: fetch_outcome.splits option.splits)
  then show "fst (posts_get cfg fetch' slug opts w') =
       (case fetch' (f_api cfg @ ''/post/'' @ slug) (reqOpts cfg (management_init opts)) of
          Rejected e \<Rightarrow> Inl e
        | Resolved res \<Rightarrow>
            (case json_body res of
               None \<Rightarrow> Inl SyntaxError
             | Some json \<Rightarrow>
                 if headers_get res ''zenblog-subscription-status'' = Some ''inactive''
                 then Inl (Error subscription_message [])
                 else if ok res then Inr json
                 else Inl (Error ''Error fetching data from API'' [AResponse res])))"
    by (simp only: posts_get_fst)
next
  show "fetches (snd (getBySlug c fetch slug w)) =
     fetches w @ [(api (c_config c) @ ''/'' @ c_blogId c @ ''/post/'' @ slug, public_init)]"
    by (simp add: getBySlug_def fetches_createClient_fetch)
next
  obtain r w1 where f: "createFetcher cfg fetch' (''post/'' @ slug) (management_init opts) w' = (r, w1)"
    by (cases "createFetcher cfg fetch' (''post/'' @ slug) (management_init opts) w'")
  have w1: "fetches w1 = fetches w' @ [(f_api cfg @ ''/post/'' @ slug, reqOpts cfg (management_init opts))]"
    using fetches_createFetcher [of cfg fetch' "''post/'' @ slug" "management_init opts" w'] f by simp
  show "fetches (snd (posts_get cfg fetch' slug opts w')) =
     fetches w' @ [(f_api cfg @ ''/post/'' @ slug, reqOpts cfg (management_init opts))]"
    using f w1 by (simp add: posts_get_def fetches_createLogger split: sum.splits)
qed

subsection \<open>Construction of the public client\<close>

text \<open>
  Claim C9. \<open>createClient\<close> with an empty blog identifier throws at construction, with the
  message of \<open>throwError\<close> for "blogId is required", and no network call is made. With a
  non-empty blog identifier it yields a client, again without a network call, and the
  request of \<open>getAll\<close> and of \<open>getBySlug\<close> goes to the base URL followed by the blog
  identifier as a path segment, then \<open>posts\<close> or \<open>post/\<close> and the slug.
\<close>

theorem blogId_required:
  "(blogId opts = [] \<longrightarrow>
      fst (createClient opts w) = Inl (Error (''['' @ siren @ ''] blogId is required'') [])
      \<and> fetches (snd (createClient opts w)) = fetches w)
   \<and> (blogId opts \<noteq> [] \<longrightarrow>
      (\<exists>c. fst (createClient opts w) = Inr c
         \<and> fetches (snd (createClient opts w)) = fetches w
         \<and> (\<forall>fetch w'. fetches (snd (getAll c fetch w')) =
               fetches w' @ [(api (getConfig (url opts)) @ ''/'' @ blogId opts @ ''/posts'', public_init)])
         \<and> (\<forall>fetch slug w'. fetches (snd (getBySlug c fetch slug w')) =
               fetches w' @ [(api (getConfig (url opts)) @ ''/'' @ blogId opts @ ''/post/'' @
                               slug, public_init)])))"
proof (intro conjI impI)
  assume e: "blogId opts = []"
  show "fst (createClient opts w) = Inl (Error (''['' @ siren @ ''] blogId is required'') [])"
    using e by (simp add: createClient_def Let_def throwError_def)
  show "fetches (snd (createClient opts w)) = fetches w"
    using e by (simp add: createClient_def Let_def throwError_def logError_def fetches_append
        fetches_createDebugger)
next
  assume n: "blogId opts \<noteq> []"
  let ?c = "\<lparr>c_config = getConfig (url opts), c_blogId = blogId opts,
             c_debug = or_false (debug opts)\<rparr>"
  have 1: "fst (createClient opts w) = Inr ?c"
    using n by (simp add: createClient_def Let_def)
  have 2: "fetches (snd (createClient opts w)) = fetches w"
    using n by (simp add: createClient_def Let_def fetches_createDebugger)
  have 3: "\<forall>fetch w'. fetches (snd (getAll ?c fetch w')) =
               fetches w' @ [(api (getConfig (url opts)) @ ''/'' @ blogId opts @ ''/posts'', public_init)]"
    by (simp add: fetches_getAll)
  have 4: "\<forall>fetch slug w'. fetches (snd (getBySlug ?c fetch slug w')) =
               fetches w' @ [(api (getConfig (url opts)) @ ''/'' @ blogId opts @ ''/post/'' @
                               slug, public_init)]"
    by (simp add: getBySlug_def fetches_createClient_fetch)
  show "\<exists>c. fst (createClient opts w) = Inr c
         \<and> fetches (snd (createClient opts w)) = fetches w
         \<and> (\<forall>fetch w'. fetches (snd (getAll c fetch w')) =
               fetches w' @ [(api (getConfig (url opts)) @ ''/'' @ blogId opts @ ''/posts'', public_init)])
         \<and> (\<forall>fetch slug w'. fetches (snd (getBySlug c fetch slug w')) =
               fetches w' @ [(api (getConfig (url opts)) @ ''/'' @ blogId opts @ ''/post/'' @
                               slug, public_init)])"
    using 1 2 3 4 by blast
qed

theorem blogId_required_witness:
  "blogId \<lparr>blogId = [], url = None, debug = None\<rparr> = []
   \<and> fst (createClient \<lparr>blogId = [], url = None, debug = None\<rparr> []) =
       Inl (Error (''['' @ siren @ ''] blogId is required'') [])
   \<and> fetches (snd (createClient \<lparr>blogId = [], url = None, debug = None\<rparr> [])) = []
   \<and> blogId \<lparr>blogId = ''b1'', url = None, debug = Some True\<rparr> \<noteq> []
   \<and> (\<exists>c. fst (createClient \<lparr>blogId = ''b1'', url = None, debug = Some True\<rparr> []) = Inr c
         \<and> fetches (snd (getBySlug c (\<lambda>_ _. Rejected TypeError) ''hello'' [])) =
              [(''https://zenblog.com/api/public/b1/post/hello'', public_init)])"
  using blogId_required [of "\<lparr>blogId = [], url = None, debug = None\<rparr>" "[]"]
        blogId_required [of "\<lparr>blogId = ''b1'', url = None, debug = Some True\<rparr>" "[]"]
  by (auto simp add: getConfig_def)

subsection \<open>Construction of the management client\<close>

text \<open>
  Claim C5. \<open>createZenblogClient\<close> throws at construction when a \<open>window\<close> global is
  defined or the access token is empty: the error of the browser guard in the first case,
  "accessToken is required" otherwise. It logs the message and makes no network call.
\<close>

theorem management_construction_guards:
  assumes "window_defined \<or> accessToken opts = []"
  shows "createZenblogClient window_defined opts w =
           (let msg = (if window_defined
                       then ''Zenblog is not supported in the browser. '' @
                            ''Make sure you don't leak your access token.''
                       else ''accessToken is required'')
            in (Inl (Error msg []), w @ [ConsoleError [AStr msg]]))
         \<and> fetches (snd (createZenblogClient window_defined opts w)) = fetches w"
  using assms by (auto simp add: createZenblogClient_def lib_throwError_def fetches_append Let_def)

theorem management_construction_guards_witness:
  "(False \<or> accessToken \<lparr>accessToken = [], z_url = None, z_debug = None\<rparr> = [])
   \<and> createZenblogClient False \<lparr>accessToken = [], z_url = None, z_debug = None\<rparr> [] =
       (Inl (Error ''accessToken is required'' []),
        [ConsoleError [AStr ''accessToken is required'']])
   \<and> (True \<or> accessToken \<lparr>accessToken = ''secret'', z_url = None, z_debug = None\<rparr> = [])
   \<and> fetches (snd (createZenblogClient True
          \<lparr>accessToken = ''secret'', z_url = None, z_debug = None\<rparr> [])) = []"
  using management_construction_guards
          [of False "\<lparr>accessToken = [], z_url = None, z_debug = None\<rparr>" "[]"]
        management_construction_guards
          [of True "\<lparr>accessToken = ''secret'', z_url = None, z_debug = None\<rparr>" "[]"]
  by (simp add: Let_def)

subsection \<open>A body that is not valid JSON\<close>

lemma createClient_fetch_malformed:
  "json_body res = None \<Longrightarrow>
   fst (createClient_fetch c (\<lambda>_ _. Resolved res) path opts w) = Inl SyntaxError"
  by (simp add: createClient_fetch_def Let_def)

lemma createFetcher_malformed:
  "json_body res = None \<Longrightarrow>
   fst (createFetcher cfg (\<lambda>_ _. Resolved res) path opts w) = Inl SyntaxError"
  by (simp add: createFetcher_def createFetcher_try_def Let_def)

lemma fst_Inl_cases:
  "fst p = Inl e \<Longrightarrow> fst (case p of (Inl e, w1) \<Rightarrow> (Inl e, w1) | (Inr v, w1) \<Rightarrow> f v w1) = Inl e"
  by (cases p) (simp split: sum.splits)

text \<open>
  Claim C7. When the transport resolves to a response whose body is not valid JSON, each
  of the four operations throws the SyntaxError of \<open>res.json()\<close>: it returns no value.
  Nothing is assumed of the status, so this holds of status 200, and of a status outside
  200 to 299, where the parse failure comes before the check of \<open>res.ok\<close> and the error of
  that check is not raised.
\<close>

theorem malformed_json_throws:
  assumes "json_body res = None"
  shows "fst (getAll c (\<lambda>_ _. Resolved res) w) = Inl SyntaxError
       \<and> fst (getBySlug c (\<lambda>_ _. Resolved res) slug w) = Inl SyntaxError
       \<and> fst (posts_list cfg (\<lambda>_ _. Resolved res) opts w) = Inl SyntaxError
       \<and> fst (posts_get cfg (\<lambda>_ _. Resolved res) slug opts w) = Inl SyntaxError"
proof (intro conjI)
  show "fst (getAll c (\<lambda>_ _. Resolved res) w) = Inl SyntaxError"
    unfolding getAll_def
    by (rule fst_Inl_cases) (rule createClient_fetch_malformed [OF assms])
  show "fst (getBySlug c (\<lambda>_ _. Resolved res) slug w) = Inl SyntaxError"
    unfolding getBySlug_def by (rule createClient_fetch_malformed [OF assms])
  show "fst (posts_list cfg (\<lambda>_ _. Resolved res) opts w) = Inl SyntaxError"
    unfolding posts_list_def
    by (rule fst_Inl_cases) (rule createFetcher_malformed [OF assms])
  show "fst (posts_get cfg (\<lambda>_ _. Resolved res) slug opts w) = Inl SyntaxError"
    unfolding posts_get_def
    by (rule fst_Inl_cases) (rule createFetcher_malformed [OF assms])
qed

theorem malformed_json_throws_witness:
  "json_body \<lparr>status = 200, statusText = ''OK'', res_headers = [], json_body = None\<rparr> = None
   \<and> fst (getAll \<lparr>c_config = \<lparr>api = ''http://h''\<rparr>, c_blogId = ''b'', c_debug = False\<rparr>
        (\<lambda>_ _. Resolved \<lparr>status = 200, statusText = ''OK'', res_headers = [],
                          json_body = None\<rparr>) []) = Inl SyntaxError
   \<and> fst (posts_get \<lparr>f_api = ''http://h'', f_accessToken = ''t'', f_debug = False\<rparr>
        (\<lambda>_ _. Resolved \<lparr>status = 200, statusText = ''OK'', res_headers = [],
                          json_body = None\<rparr>) ''s'' None []) = Inl SyntaxError"
  using malformed_json_throws
    [of "\<lparr>status = 200, statusText = ''OK'', res_headers = [], json_body = None\<rparr>"
        "\<lparr>c_config = \<lparr>api = ''http://h''\<rparr>, c_blogId = ''b'', c_debug = False\<rparr>" "[]"
        "''s''" "\<lparr>f_api = ''http://h'', f_accessToken = ''t'', f_debug = False\<rparr>" None]
  by simp

subsection \<open>The headers of a management request\<close>





subsection \<open>The inactive subscription\<close>

lemma createFetcher_inactive:
  assumes "headers_get res ''zenblog-subscription-status'' = Some ''inactive''"
    and "json_body res = Some j"
  shows "createFetcher cfg (\<lambda>_ _. Resolved res) path opts w =
      (Inl (Error subscription_message []),
       createLogger (f_debug cfg)
         [AStr ''fetch '', AStr (f_api cfg @ ''/'' @ path), AInit (reqOpts cfg opts)] w @
       [Fetch (f_api cfg @ ''/'' @ path) (reqOpts cfg opts),
        ConsoleError [AStr subscription_message],
        ConsoleError [AStr ''[Zenblog Error] '', AThrown (Error subscription_message [])]])"
  using assms by (simp add: createFetcher_def createFetcher_try_def Let_def lib_throwError_def)

text \<open>
  Claim C1, as stated, fails. A response with status 200 that carries the header
  \<open>zenblog-subscription-status: inactive\<close> and a body that is not valid JSON makes \<open>list\<close>
  throw the SyntaxError of \<open>res.json()\<close>, which is awaited before the header is read, and
  not the subscription error.
\<close>

theorem inactive_header_malformed_body_counterexample:
  "headers_get \<lparr>status = 200, statusText = ''OK'',
                 res_headers = [(''zenblog-subscription-status'', ''inactive'')],
                 json_body = None\<rparr> ''zenblog-subscription-status'' = Some ''inactive''
   \<and> fst (posts_list \<lparr>f_api = ''https://api.zenblog.com'', f_accessToken = ''t'', f_debug = False\<rparr>
          (\<lambda>_ _. Resolved \<lparr>status = 200, statusText = ''OK'',
                             res_headers = [(''zenblog-subscription-status'', ''inactive'')],
                             json_body = None\<rparr>) None []) = Inl SyntaxError
   \<and> Inl SyntaxError \<noteq> (Inl (Error subscription_message []) :: thrown + js_value)"
  by (simp add: headers_get_def posts_list_fst createFetcher_def createFetcher_try_def Let_def)

text \<open>
  Claim C1, amended. For every response whose body parses as JSON and whose header
  \<open>zenblog-subscription-status\<close> is \<open>inactive\<close>, \<open>list\<close> and \<open>get\<close> throw the subscription
  error. Nothing is assumed of the status: the check comes before that of \<open>res.ok\<close>, so the
  error is thrown at status 200 as well, and at a status outside 200 to 299 it is thrown
  in place of the error of the \<open>res.ok\<close> check.
\<close>

theorem inactive_subscription_throws:
  assumes "headers_get res ''zenblog-subscription-status'' = Some ''inactive''"
    and "json_body res = Some j"
  shows "fst (posts_list cfg (\<lambda>_ _. Resolved res) opts w) = Inl (Error subscription_message [])
       \<and> fst (posts_get cfg (\<lambda>_ _. Resolved res) slug opts w) =
           Inl (Error subscription_message [])"
  by (simp add: posts_list_fst posts_get_fst createFetcher_inactive [OF assms])

theorem inactive_subscription_throws_witness:
  "headers_get \<lparr>status = 200, statusText = ''OK'',
                 res_headers = [(''zenblog-subscription-status'', ''inactive'')],
                 json_body = Some (JArr [])\<rparr> ''zenblog-subscription-status'' = Some ''inactive''
   \<and> json_body \<lparr>status = 200, statusText = ''OK'',
                 res_headers = [(''zenblog-subscription-status'', ''inactive'')],
                 json_body = Some (JArr [])\<rparr> = Some (JArr [])
   \<and> ok \<lparr>status = 200, statusText = ''OK'',
          res_headers = [(''zenblog-subscription-status'', ''inactive'')],
          json_body = Some (JArr [])\<rparr>
   \<and> fst (posts_list \<lparr>f_api = ''https://api.zenblog.com'', f_accessToken = ''t'', f_debug = False\<rparr>
          (\<lambda>_ _. Resolved \<lparr>status = 200, statusText = ''OK'',
                             res_headers = [(''zenblog-subscription-status'', ''inactive'')],
                             json_body = Some (JArr [])\<rparr>) None []) =
       Inl (Error subscription_message [])"
  using inactive_subscription_throws
    [of "\<lparr>status = 200, statusText = ''OK'',
          res_headers = [(''zenblog-subscription-status'', ''inactive'')],
          json_body = Some (JArr [])\<rparr>" "JArr []"
        "\<lparr>f_api = ''https://api.zenblog.com'', f_accessToken = ''t'', f_debug = False\<rparr>"
        None "[]" "''s''"]
  by (simp add: headers_get_def ok_def)

text \<open>
  Claim C3, as stated, fails: the body is parsed before the header is read. With status
  402, the inactive header and a body that is not valid JSON, \<open>_fetch\<close> throws the
  SyntaxError; the subscription error is neither thrown nor logged.
\<close>

theorem body_parsed_before_subscription_check_counterexample:
  "headers_get \<lparr>status = 402, statusText = ''Payment Required'',
                 res_headers = [(''zenblog-subscription-status'', ''inactive'')],
                 json_body = None\<rparr> ''zenblog-subscription-status'' = Some ''inactive''
   \<and> createFetcher \<lparr>f_api = ''https://api.zenblog.com'', f_accessToken = ''t'', f_debug = False\<rparr>
        (\<lambda>_ _. Resolved \<lparr>status = 402, statusText = ''Payment Required'',
                           res_headers = [(''zenblog-subscription-status'', ''inactive'')],
                           json_body = None\<rparr>)
        ''posts'' (management_init None) [] =
      (Inl SyntaxError,
       [Fetch ''https://api.zenblog.com/posts''
          \<lparr>init_method = Some ''GET'', cache = Some ''default'',
           headers = Some [(''authorization'', ''Bearer t''),
                           (''Content-Type'', ''application/json'')]\<rparr>,
        ConsoleError [AStr ''[Zenblog Error] '', AThrown SyntaxError]])"
  by (simp add: headers_get_def createFetcher_def createFetcher_try_def Let_def
      createLogger_def management_init_def cache_or_default_def reqOpts_def spread_def
      default_headers_def)

text \<open>
  Claim C3, amended. For every response whose body parses as JSON and whose header
  \<open>zenblog-subscription-status\<close> is \<open>inactive\<close>, \<open>_fetch\<close> of \<open>createFetcher\<close> throws the
  subscription error after the body has been parsed and before anything else is done
  with it: the parsed body is not logged and not returned, and neither the outcome nor
  the events depend on it. The events after the request are the log of \<open>throwError\<close> and
  that of the \<open>catch\<close> clause.
\<close>

theorem subscription_error_ignores_parsed_body:
  assumes "headers_get res ''zenblog-subscription-status'' = Some ''inactive''"
    and "json_body res = Some j"
  shows "createFetcher cfg (\<lambda>_ _. Resolved res) path opts w =
      (Inl (Error subscription_message []),
       createLogger (f_debug cfg)
         [AStr ''fetch '', AStr (f_api cfg @ ''/'' @ path), AInit (reqOpts cfg opts)] w @
       [Fetch (f_api cfg @ ''/'' @ path) (reqOpts cfg opts),
        ConsoleError [AStr subscription_message],
        ConsoleError [AStr ''[Zenblog Error] '', AThrown (Error subscription_message [])]])"
  by (rule createFetcher_inactive [OF assms])

theorem subscription_error_ignores_parsed_body_witness:
  "headers_get \<lparr>status = 500, statusText = ''Internal Server Error'',
                 res_headers = [(''zenblog-subscription-status'', ''inactive'')],
                 json_body = Some (JStr ''oops'')\<rparr> ''zenblog-subscription-status'' =
     Some ''inactive''
   \<and> json_body \<lparr>status = 500, statusText = ''Internal Server Error'',
                 res_headers = [(''zenblog-subscription-status'', ''inactive'')],
                 json_body = Some (JStr ''oops'')\<rparr> = Some (JStr ''oops'')
   \<and> createFetcher \<lparr>f_api = ''https://api.zenblog.com'', f_accessToken = ''t'', f_debug = True\<rparr>
        (\<lambda>_ _. Resolved \<lparr>status = 500, statusText = ''Internal Server Error'',
                           res_headers = [(''zenblog-subscription-status'', ''inactive'')],
                           json_body = Some (JStr ''oops'')\<rparr>)
        ''posts'' (management_init None) [] =
      (Inl (Error subscription_message []),
       [ConsoleLog [AStr ''fetch '', AStr ''https://api.zenblog.com/posts'',
                    AInit \<lparr>init_method = Some ''GET'', cache = Some ''default'',
                           headers = Some [(''authorization'', ''Bearer t''),
                                           (''Content-Type'', ''application/json'')]\<rparr>],
        Fetch ''https://api.zenblog.com/posts''
          \<lparr>init_method = Some ''GET'', cache = Some ''default'',
           headers = Some [(''authorization'', ''Bearer t''),
                           (''Content-Type'', ''application/json'')]\<rparr>,
        ConsoleError [AStr subscription_message],
        ConsoleError [AStr ''[Zenblog Error] '', AThrown (Error subscription_message [])]])"
  using subscription_error_ignores_parsed_body
    [of "\<lparr>status = 500, statusText = ''Internal Server Error'',
          res_headers = [(''zenblog-subscription-status'', ''inactive'')],
          json_body = Some (JStr ''oops'')\<rparr>" "JStr ''oops''"
        "\<lparr>f_api = ''https://api.zenblog.com'', f_accessToken = ''t'', f_debug = True\<rparr>"
        "''posts''" "management_init None" "[]"]
  by (simp add: headers_get_def createLogger_def management_init_def cache_or_default_def
      reqOpts_def spread_def default_headers_def)

subsection \<open>The error of a response outside 200 to 299\<close>

lemma createClient_fetch_not_ok:
  assumes "json_body res = Some j" and "\<not> ok res"
  shows "createClient_fetch c (\<lambda>_ _. Resolved res) path opts w =
      (Inl (Error (''['' @ siren @ ''] Error fetching data from API'') []),
       createDebugger (c_debug c)
         [AStr ''res'', ASummary (status res) (statusText res) False j]
         (createDebugger (c_debug c)
            [AStr ''fetching '', AStr (api (c_config c) @ ''/'' @ c_blogId c @ ''/'' @ path),
             AInit opts] w @
          [Fetch (api (c_config c) @ ''/'' @ c_blogId c @ ''/'' @ path) opts]) @
       [ConsoleError [AStr (''['' @ orange @ ''] ''), AStr ''Error fetching data from API'',
                      AResponse res]])"
  using assms by (simp add: createClient_fetch_def Let_def throwError_def logError_def)

lemma createFetcher_not_ok:
  assumes "json_body res = Some j" and "\<not> ok res"
    and "headers_get res ''zenblog-subscription-status'' \<noteq> Some ''inactive''"
  shows "\<exists>w'. fst (createFetcher cfg (\<lambda>_ _. Resolved res) path opts w) =
      Inl (fst (lib_throwError ''Error fetching data from API'' [AResponse res] w'))"
proof -
  let ?w = "createLogger (f_debug cfg)
              [AStr ''res'', ASummary (status res) (statusText res) (ok res) j]
              (createLogger (f_debug cfg)
                 [AStr ''fetch '', AStr (f_api cfg @ ''/'' @ path), AInit (reqOpts cfg opts)] w @
               [Fetch (f_api cfg @ ''/'' @ path) (reqOpts cfg opts)])"
  have "fst (createFetcher cfg (\<lambda>_ _. Resolved res) path opts w) =
      Inl (fst (lib_throwError ''Error fetching data from API'' [AResponse res] ?w))"
    using assms
    by (simp add: createFetcher_def createFetcher_try_def Let_def split: prod.splits)
  then show ?thesis by blast
qed

text \<open>
  Claim C2, as stated, fails. For a 404 response with a JSON body, the error that
  \<open>getBySlug\<close> throws is \<open>new Error\<close> of the message alone: it does not carry the response.
\<close>

theorem request_error_carries_no_response_counterexample:
  "\<not> ok \<lparr>status = 404, statusText = ''Not Found'', res_headers = [], json_body = Some JNull\<rparr>
   \<and> fst (getBySlug \<lparr>c_config = \<lparr>api = ''https://zenblog.com/api/public''\<rparr>, c_blogId = ''b1'',
                     c_debug = False\<rparr>
          (\<lambda>_ _. Resolved \<lparr>status = 404, statusText = ''Not Found'', res_headers = [],
                             json_body = Some JNull\<rparr>) ''missing-slug'' []) =
       Inl (Error (''['' @ siren @ ''] Error fetching data from API'') [])
   \<and> AResponse \<lparr>status = 404, statusText = ''Not Found'', res_headers = [],
                 json_body = Some JNull\<rparr>
       \<notin> set (context_of (Error (''['' @ siren @ ''] Error fetching data from API'') []))"
  by (simp add: ok_def getBySlug_def createClient_fetch_def Let_def throwError_def)

text \<open>
  Claim C2, amended. For every response with a status outside 200 to 299 whose body
  parses as JSON: \<open>getAll\<close> and \<open>getBySlug\<close> throw an error whose message is the marker of
  \<open>throwError\<close> followed by "Error fetching data from API" and which carries nothing
  else; the response is written to \<open>console.error\<close> with the message, as the last event.
  Where the subscription header is not \<open>inactive\<close>, \<open>list\<close> and \<open>get\<close> throw what \<open>throwError\<close>
  of \<open>./lib\<close> throws when called with "Error fetching data from API" and the response.
\<close>

theorem request_error_shape:
  assumes "json_body res = Some j" and "\<not> ok res"
  shows "fst (getAll c (\<lambda>_ _. Resolved res) w) =
           Inl (Error (''['' @ siren @ ''] Error fetching data from API'') [])
       \<and> fst (getBySlug c (\<lambda>_ _. Resolved res) slug w) =
           Inl (Error (''['' @ siren @ ''] Error fetching data from API'') [])
       \<and> last (snd (getAll c (\<lambda>_ _. Resolved res) w)) =
           ConsoleError [AStr (''['' @ orange @ ''] ''), AStr ''Error fetching data from API'',
                         AResponse res]
       \<and> last (snd (getBySlug c (\<lambda>_ _. Resolved res) slug w)) =
           ConsoleError [AStr (''['' @ orange @ ''] ''), AStr ''Error fetching data from API'',
                         AResponse res]
       \<and> (headers_get res ''zenblog-subscription-status'' \<noteq> Some ''inactive'' \<longrightarrow>
            (\<exists>w'. fst (posts_list cfg (\<lambda>_ _. Resolved res) opts w) =
                   Inl (fst (lib_throwError ''Error fetching data from API'' [AResponse res] w')))
            \<and> (\<exists>w'. fst (posts_get cfg (\<lambda>_ _. Resolved res) slug opts w) =
                   Inl (fst (lib_throwError ''Error fetching data from API'' [AResponse res] w'))))"
proof (intro conjI impI)
  show "fst (getAll c (\<lambda>_ _. Resolved res) w) =
           Inl (Error (''['' @ siren @ ''] Error fetching data from API'') [])"
    by (simp add: getAll_fst createClient_fetch_not_ok [OF assms])
  show "fst (getBySlug c (\<lambda>_ _. Resolved res) slug w) =
           Inl (Error (''['' @ siren @ ''] Error fetching data from API'') [])"
    by (simp add: getBySlug_def createClient_fetch_not_ok [OF assms])
  show "last (snd (getAll c (\<lambda>_ _. Resolved res) w)) =
           ConsoleError [AStr (''['' @ orange @ ''] ''), AStr ''Error fetching data from API'',
                         AResponse res]"
    by (simp add: getAll_def createClient_fetch_not_ok [OF assms])
  show "last (snd (getBySlug c (\<lambda>_ _. Resolved res) slug w)) =
           ConsoleError [AStr (''['' @ orange @ ''] ''), AStr ''Error fetching data from API'',
                         AResponse res]"
    by (simp add: getBySlug_def createClient_fetch_not_ok [OF assms])
next
  assume h: "headers_get res ''zenblog-subscription-status'' \<noteq> Some ''inactive''"
  show "\<exists>w'. fst (posts_list cfg (\<lambda>_ _. Resolved res) opts w) =
               Inl (fst (lib_throwError ''Error fetching data from API'' [AResponse res] w'))"
    using createFetcher_not_ok [OF assms h] by (simp only: posts_list_fst)
  show "\<exists>w'. fst (posts_get cfg (\<lambda>_ _. Resolved res) slug opts w) =
               Inl (fst (lib_throwError ''Error fetching data from API'' [AResponse res] w'))"
    using createFetcher_not_ok [OF assms h] by (simp only: posts_get_fst)
qed

theorem request_error_shape_witness:
  "json_body \<lparr>status = 404, statusText = ''Not Found'', res_headers = [],
              json_body = Some (JObj [(''error'', JStr ''not found'')])\<rparr> =
     Some (JObj [(''error'', JStr ''not found'')])
   \<and> \<not> ok \<lparr>status = 404, statusText = ''Not Found'', res_headers = [],
            json_body = Some (JObj [(''error'', JStr ''not found'')])\<rparr>
   \<and> headers_get \<lparr>status = 404, statusText = ''Not Found'', res_headers = [],
                   json_body = Some (JObj [(''error'', JStr ''not found'')])\<rparr>
        ''zenblog-subscription-status'' \<noteq> Some ''inactive''
   \<and> fst (getBySlug \<lparr>c_config = \<lparr>api = ''https://zenblog.com/api/public''\<rparr>, c_blogId = ''b1'',
                     c_debug = True\<rparr>
          (\<lambda>_ _. Resolved \<lparr>status = 404, statusText = ''Not Found'', res_headers = [],
                             json_body = Some (JObj [(''error'', JStr ''not found'')])\<rparr>)
          ''missing-slug'' []) =
       Inl (Error (''['' @ siren @ ''] Error fetching data from API'') [])
   \<and> fst (posts_get \<lparr>f_api = ''https://api.zenblog.com'', f_accessToken = ''t'', f_debug = True\<rparr>
          (\<lambda>_ _. Resolved \<lparr>status = 404, statusText = ''Not Found'', res_headers = [],
                             json_body = Some (JObj [(''error'', JStr ''not found'')])\<rparr>)
          ''missing-slug'' None []) =
       Inl (Error ''Error fetching data from API''
              [AResponse \<lparr>status = 404, statusText = ''Not Found'', res_headers = [],
                          json_body = Some (JObj [(''error'', JStr ''not found'')])\<rparr>])"
  using request_error_shape
    [of "\<lparr>status = 404, statusText = ''Not Found'', res_headers = [],
          json_body = Some (JObj [(''error'', JStr ''not found'')])\<rparr>"
        "JObj [(''error'', JStr ''not found'')]"
        "\<lparr>c_config = \<lparr>api = ''https://zenblog.com/api/public''\<rparr>, c_blogId = ''b1'',
          c_debug = True\<rparr>" "[]" "''missing-slug''"
        "\<lparr>f_api = ''https://api.zenblog.com'', f_accessToken = ''t'', f_debug = True\<rparr>" None]
  by (simp add: ok_def headers_get_def lib_throwError_def)

subsection \<open>The posts of a list\<close>

lemma normalize_post_JObj:
  "normalize_post (JObj fs) =
     Inr (JObj (map (\<lambda>k. (k, case map_of fs k of Some v \<Rightarrow> v | None \<Rightarrow> JUndefined)) post_fields))"
  by (simp add: normalize_post_def post_fields_def)

lemma valid_post_JObj: "valid_post p \<Longrightarrow> \<exists>fs. p = JObj fs"
  by (cases p) (simp_all add: valid_post_def)

lemma get_prop_normalized:
  "get_prop (JObj (map (\<lambda>k. (k, case map_of fs k of Some v \<Rightarrow> v | None \<Rightarrow> JUndefined)) post_fields)) k =
     (if k \<in> set post_fields then get_prop (JObj fs) k else Inr JUndefined)"
  by (simp add: post_fields_def)

lemma normalize_post_valid:
  assumes "valid_post p"
  shows "\<exists>fs. normalize_post p = Inr (JObj fs) \<and> map fst fs = post_fields
           \<and> (\<forall>k. get_prop (JObj fs) k =
                 (if k \<in> set post_fields then get_prop p k else Inr JUndefined))"
proof -
  from assms obtain ps where p: "p = JObj ps" using valid_post_JObj by blast
  let ?fs = "map (\<lambda>k. (k, case map_of ps k of Some v \<Rightarrow> v | None \<Rightarrow> JUndefined)) post_fields"
  have 1: "normalize_post p = Inr (JObj ?fs)" by (simp only: p normalize_post_JObj)
  have 2: "map fst ?fs = post_fields" by (simp add: comp_def)
  have 3: "\<forall>k. get_prop (JObj ?fs) k =
                 (if k \<in> set post_fields then get_prop p k else Inr JUndefined)"
    by (simp only: p get_prop_normalized) simp
  show ?thesis using 1 2 3 by blast
qed

lemma map_throwing_total:
  "\<forall>x\<in>set xs. \<exists>y. f x = Inr y \<Longrightarrow> \<exists>ys. map_throwing f xs = Inr ys"
proof (induction xs)
  case Nil
  then show ?case by simp
next
  case (Cons x xs)
  then obtain y ys where "f x = Inr y" and "map_throwing f xs = Inr ys" by auto
  then show ?case by simp
qed

lemma map_throwing_nth:
  "map_throwing f xs = Inr ys \<Longrightarrow>
   length ys = length xs \<and> (\<forall>i<length xs. f (xs ! i) = Inr (ys ! i))"
proof (induction xs arbitrary: ys)
  case Nil
  then show ?case by simp
next
  case (Cons x xs)
  from Cons.prems obtain y zs where
    y: "f x = Inr y" and zs: "map_throwing f xs = Inr zs" and ys: "ys = y # zs"
    by (auto split: sum.splits)
  from Cons.IH [OF zs] have l: "length zs = length xs"
    and n: "\<forall>i<length xs. f (xs ! i) = Inr (zs ! i)" by simp_all
  have "\<forall>i<length (x # xs). f ((x # xs) ! i) = Inr (ys ! i)"
  proof (intro allI impI)
    fix i assume "i < length (x # xs)"
    then show "f ((x # xs) ! i) = Inr (ys ! i)"
      using y n ys by (cases i) simp_all
  qed
  then show ?case using l ys by simp
qed

lemma createClient_fetch_ok:
  "json_body res = Some j \<Longrightarrow> ok res \<Longrightarrow>
   fst (createClient_fetch c (\<lambda>_ _. Resolved res) path opts w) = Inr j"
  by (simp add: createClient_fetch_def Let_def)

lemma createFetcher_ok:
  "json_body res = Some j \<Longrightarrow> ok res \<Longrightarrow>
   headers_get res ''zenblog-subscription-status'' \<noteq> Some ''inactive'' \<Longrightarrow>
   fst (createFetcher cfg (\<lambda>_ _. Resolved res) path opts w) = Inr j"
  by (simp add: createFetcher_def createFetcher_try_def Let_def)

lemma getAll_posts_list_ok:
  assumes "json_body res = Some (JArr ps)" and "ok res" and "list_all valid_post ps"
  shows "(\<exists>ns. fst (getAll c (\<lambda>_ _. Resolved res) w) = Inr (JArr ns)
            \<and> length ns = length ps
            \<and> (\<forall>i<length ps.
                 (\<exists>fs. ns ! i = JObj fs \<and> map fst fs = post_fields)
                 \<and> (\<forall>k. get_prop (ns ! i) k =
                       (if k \<in> set post_fields then get_prop (ps ! i) k else Inr JUndefined))))
       \<and> (headers_get res ''zenblog-subscription-status'' \<noteq> Some ''inactive'' \<longrightarrow>
            fst (posts_list cfg (\<lambda>_ _. Resolved res) opts w) = Inr (JArr ps))"
proof (intro conjI impI)
  have "\<forall>p\<in>set ps. \<exists>n. normalize_post p = Inr n"
    using assms(3) normalize_post_valid by (fastforce simp add: list_all_iff)
  then obtain ns where m: "map_throwing normalize_post ps = Inr ns"
    using map_throwing_total by blast
  have 1: "fst (getAll c (\<lambda>_ _. Resolved res) w) = Inr (JArr ns)"
    by (simp add: getAll_fst createClient_fetch_ok [OF assms(1,2)] m)
  have 2: "length ns = length ps" using map_throwing_nth [OF m] by simp
  have 3: "\<forall>i<length ps.
             (\<exists>fs. ns ! i = JObj fs \<and> map fst fs = post_fields)
             \<and> (\<forall>k. get_prop (ns ! i) k =
                   (if k \<in> set post_fields then get_prop (ps ! i) k else Inr JUndefined))"
  proof (intro allI impI)
    fix i assume i: "i < length ps"
    then have "valid_post (ps ! i)" using assms(3) by (simp add: list_all_length)
    from normalize_post_valid [OF this] obtain fs where
      n: "normalize_post (ps ! i) = Inr (JObj fs)" and f: "map fst fs = post_fields"
      and g: "\<forall>k. get_prop (JObj fs) k =
                 (if k \<in> set post_fields then get_prop (ps ! i) k else Inr JUndefined)"
      by blast
    have "normalize_post (ps ! i) = Inr (ns ! i)" using map_throwing_nth [OF m] i by simp
    with n have "ns ! i = JObj fs" by simp
    with f g show "(\<exists>fs. ns ! i = JObj fs \<and> map fst fs = post_fields)
             \<and> (\<forall>k. get_prop (ns ! i) k =
                   (if k \<in> set post_fields then get_prop (ps ! i) k else Inr JUndefined))"
      by simp
  qed
  show "\<exists>ns. fst (getAll c (\<lambda>_ _. Resolved res) w) = Inr (JArr ns)
            \<and> length ns = length ps
            \<and> (\<forall>i<length ps.
                 (\<exists>fs. ns ! i = JObj fs \<and> map fst fs = post_fields)
                 \<and> (\<forall>k. get_prop (ns ! i) k =
                       (if k \<in> set post_fields then get_prop (ps ! i) k else Inr JUndefined)))"
    using 1 2 3 by blast
next
  assume "headers_get res ''zenblog-subscription-status'' \<noteq> Some ''inactive''"
  then show "fst (posts_list cfg (\<lambda>_ _. Resolved res) opts w) = Inr (JArr ps)"
    by (simp add: posts_list_fst createFetcher_ok [OF assms(1,2)])
qed

text \<open>
  Claim C4, as stated, fails. For a valid post record without a \<open>cover_image\<close>, the record
  that \<open>getAll\<close> returns has an own property \<open>cover_image\<close>, of value \<open>undefined\<close>: the
  object literal of \<open>getAll\<close> always writes the field, so it is not absent.
\<close>

theorem cover_image_not_absent_counterexample:
  "valid_post (JObj [(''title'', JStr ''B''), (''slug'', JStr ''b''), (''created_at'', JStr ''t3''),
                     (''updated_at'', JStr ''t4'')])
   \<and> \<not> has_own (JObj [(''title'', JStr ''B''), (''slug'', JStr ''b''),
                       (''created_at'', JStr ''t3''), (''updated_at'', JStr ''t4'')])
          ''cover_image''
   \<and> ok \<lparr>status = 200, statusText = ''OK'', res_headers = [],
          json_body = Some (JArr [JObj [(''title'', JStr ''B''), (''slug'', JStr ''b''),
                                        (''created_at'', JStr ''t3''),
                                        (''updated_at'', JStr ''t4'')]])\<rparr>
   \<and> fst (getAll \<lparr>c_config = \<lparr>api = ''https://zenblog.com/api/public''\<rparr>, c_blogId = ''b1'',
                  c_debug = False\<rparr>
          (\<lambda>_ _. Resolved \<lparr>status = 200, statusText = ''OK'', res_headers = [],
             json_body = Some (JArr [JObj [(''title'', JStr ''B''), (''slug'', JStr ''b''),
                                           (''created_at'', JStr ''t3''),
                                           (''updated_at'', JStr ''t4'')]])\<rparr>) []) =
       Inr (JArr [JObj [(''slug'', JStr ''b''), (''title'', JStr ''B''),
                        (''created_at'', JStr ''t3''), (''updated_at'', JStr ''t4''),
                        (''cover_image'', JUndefined)]])
   \<and> has_own (JObj [(''slug'', JStr ''b''), (''title'', JStr ''B''),
                     (''created_at'', JStr ''t3''), (''updated_at'', JStr ''t4''),
                     (''cover_image'', JUndefined)]) ''cover_image''"
  by (simp add: valid_post_def ok_def getAll_fst createClient_fetch_def Let_def
      normalize_post_def)

text \<open>
  Claim C4, amended. When the server answers with a status from 200 to 299 and a JSON
  array of valid post records, \<open>getAll\<close> returns an array of the same length whose element
  at each index is an object with exactly the own properties \<open>slug\<close>, \<open>title\<close>,
  \<open>created_at\<close>, \<open>updated_at\<close> and \<open>cover_image\<close>, in this order; a read of one of these
  gives what the same read of the server's record at that index gives, and a read of any
  other field gives \<open>undefined\<close>. The property \<open>cover_image\<close> is always there: where the
  server's record has none, it is there with the value \<open>undefined\<close>. \<open>list\<close> of the
  management client returns the array of the server as it is, where the subscription
  header is not \<open>inactive\<close>.
\<close>

theorem list_preserves_posts:
  assumes "json_body res = Some (JArr ps)" and "ok res" and "list_all valid_post ps"
  shows "(\<exists>ns. fst (getAll c (\<lambda>_ _. Resolved res) w) = Inr (JArr ns)
            \<and> length ns = length ps
            \<and> (\<forall>i<length ps.
                 (\<exists>fs. ns ! i = JObj fs \<and> map fst fs = post_fields)
                 \<and> (\<forall>k. get_prop (ns ! i) k =
                       (if k \<in> set post_fields then get_prop (ps ! i) k else Inr JUndefined))
                 \<and> has_own (ns ! i) ''cover_image''
                 \<and> (\<not> has_own (ps ! i) ''cover_image'' \<longrightarrow>
                      get_prop (ns ! i) ''cover_image'' = Inr JUndefined)))
       \<and> (headers_get res ''zenblog-subscription-status'' \<noteq> Some ''inactive'' \<longrightarrow>
            fst (posts_list cfg (\<lambda>_ _. Resolved res) opts w) = Inr (JArr ps))"
proof -
  from getAll_posts_list_ok [OF assms, of c w cfg opts] obtain ns where
    1: "fst (getAll c (\<lambda>_ _. Resolved res) w) = Inr (JArr ns)"
    and 2: "length ns = length ps"
    and 3: "\<forall>i<length ps.
              (\<exists>fs. ns ! i = JObj fs \<and> map fst fs = post_fields)
              \<and> (\<forall>k. get_prop (ns ! i) k =
                    (if k \<in> set post_fields then get_prop (ps ! i) k else Inr JUndefined))"
    and 4: "headers_get res ''zenblog-subscription-status'' \<noteq> Some ''inactive'' \<longrightarrow>
            fst (posts_list cfg (\<lambda>_ _. Resolved res) opts w) = Inr (JArr ps)"
    by blast
  have 5: "\<forall>i<length ps.
             (\<exists>fs. ns ! i = JObj fs \<and> map fst fs = post_fields)
             \<and> (\<forall>k. get_prop (ns ! i) k =
                   (if k \<in> set post_fields then get_prop (ps ! i) k else Inr JUndefined))
             \<and> has_own (ns ! i) ''cover_image''
             \<and> (\<not> has_own (ps ! i) ''cover_image'' \<longrightarrow>
                  get_prop (ns ! i) ''cover_image'' = Inr JUndefined)"
  proof (intro allI impI)
    fix i assume i: "i < length ps"
    from 3 i obtain fs where f: "ns ! i = JObj fs" and k: "map fst fs = post_fields"
      and g: "\<forall>k. get_prop (ns ! i) k =
                (if k \<in> set post_fields then get_prop (ps ! i) k else Inr JUndefined)"
      by blast
    have own: "has_own (ns ! i) ''cover_image''"
      by (simp add: f k post_fields_def)
    have "valid_post (ps ! i)" using assms(3) i by (simp add: list_all_length)
    then obtain qs where q: "ps ! i = JObj qs" using valid_post_JObj by blast
    have und: "\<not> has_own (ps ! i) ''cover_image'' \<longrightarrow>
                 get_prop (ns ! i) ''cover_image'' = Inr JUndefined"
    proof
      assume "\<not> has_own (ps ! i) ''cover_image''"
      then have "map_of qs ''cover_image'' = None"
        by (simp add: q map_of_eq_None_iff)
      then have "get_prop (ps ! i) ''cover_image'' = Inr JUndefined" by (simp add: q)
      moreover have "get_prop (ns ! i) ''cover_image'' = get_prop (ps ! i) ''cover_image''"
        using g by (simp add: post_fields_def)
      ultimately show "get_prop (ns ! i) ''cover_image'' = Inr JUndefined" by simp
    qed
    show "(\<exists>fs. ns ! i = JObj fs \<and> map fst fs = post_fields)
             \<and> (\<forall>k. get_prop (ns ! i) k =
                   (if k \<in> set post_fields then get_prop (ps ! i) k else Inr JUndefined))
             \<and> has_own (ns ! i) ''cover_image''
             \<and> (\<not> has_own (ps ! i) ''cover_image'' \<longrightarrow>
                  get_prop (ns ! i) ''cover_image'' = Inr JUndefined)"
      using f k g own und by blast
  qed
  show ?thesis using 1 2 4 5 by blast
qed

theorem list_preserves_posts_witness:
  "json_body \<lparr>status = 200, statusText = ''OK'', res_headers = [],
              json_body = Some (JArr two_posts)\<rparr> = Some (JArr two_posts)
   \<and> ok \<lparr>status = 200, statusText = ''OK'', res_headers = [], json_body = Some (JArr two_posts)\<rparr>
   \<and> list_all valid_post two_posts
   \<and> (\<exists>ns. fst (getAll \<lparr>c_config = \<lparr>api = ''http://h''\<rparr>, c_blogId = ''b'', c_debug = True\<rparr>
               (\<lambda>_ _. Resolved \<lparr>status = 200, statusText = ''OK'', res_headers = [],
                                 json_body = Some (JArr two_posts)\<rparr>) []) = Inr (JArr ns)
          \<and> length ns = 2
          \<and> get_prop (ns ! 0) ''cover_image'' = Inr (JStr ''a.png'')
          \<and> get_prop (ns ! 0) ''views'' = Inr JUndefined
          \<and> get_prop (ns ! 1) ''slug'' = Inr (JStr ''b'')
          \<and> get_prop (ns ! 1) ''cover_image'' = Inr JUndefined
          \<and> has_own (ns ! 1) ''cover_image'')
   \<and> \<not> has_own (two_posts ! 1) ''cover_image''
   \<and> fst (posts_list \<lparr>f_api = ''http://h'', f_accessToken = ''t'', f_debug = True\<rparr>
          (\<lambda>_ _. Resolved \<lparr>status = 200, statusText = ''OK'', res_headers = [],
                            json_body = Some (JArr two_posts)\<rparr>) None []) = Inr (JArr two_posts)"
proof -
  let ?res = "\<lparr>status = 200, statusText = ''OK'', res_headers = [],
              json_body = Some (JArr two_posts)\<rparr>"
  have h1: "json_body ?res = Some (JArr two_posts)" by simp
  have h2: "ok ?res" by (simp add: ok_def)
  have h3: "list_all valid_post two_posts" by (simp add: two_posts_def valid_post_def)
  have h4: "headers_get ?res ''zenblog-subscription-status'' \<noteq> Some ''inactive''"
    by (simp add: headers_get_def)
  have l: "length two_posts = 2" by (simp add: two_posts_def)
  have p0: "two_posts ! 0 = JObj [(''slug'', JStr ''a''), (''title'', JStr ''A''), (''created_at'', JStr ''t1''),
            (''updated_at'', JStr ''t2''), (''cover_image'', JStr ''a.png''), (''views'', JNum 7)]"
    by (simp add: two_posts_def)
  have p1: "two_posts ! 1 = JObj [(''title'', JStr ''B''), (''slug'', JStr ''b''), (''created_at'', JStr ''t3''),
            (''updated_at'', JStr ''t4'')]"
    by (simp add: two_posts_def)
  note t = list_preserves_posts [OF h1 h2 h3,
      of "\<lparr>c_config = \<lparr>api = ''http://h''\<rparr>, c_blogId = ''b'', c_debug = True\<rparr>" "[]"
         "\<lparr>f_api = ''http://h'', f_accessToken = ''t'', f_debug = True\<rparr>" None]
  from t obtain ns where
    a: "fst (getAll \<lparr>c_config = \<lparr>api = ''http://h''\<rparr>, c_blogId = ''b'', c_debug = True\<rparr>
               (\<lambda>_ _. Resolved ?res) []) = Inr (JArr ns)"
    and b: "length ns = length two_posts"
    and c: "\<forall>i<length two_posts. \<forall>k. get_prop (ns ! i) k =
                       (if k \<in> set post_fields then get_prop (two_posts ! i) k else Inr JUndefined)"
    and o: "\<forall>i<length two_posts. has_own (ns ! i) ''cover_image''"
    by blast
  have o1: "has_own (ns ! 1) ''cover_image''" using o l by simp
  have n1: "\<not> has_own (two_posts ! 1) ''cover_image''" using p1 by simp
  have c0: "\<forall>k. get_prop (ns ! 0) k =
                       (if k \<in> set post_fields then get_prop (two_posts ! 0) k else Inr JUndefined)"
    using c l by simp
  have c1: "\<forall>k. get_prop (ns ! 1) k =
                       (if k \<in> set post_fields then get_prop (two_posts ! 1) k else Inr JUndefined)"
    using c l by simp
  have "get_prop (ns ! 0) ''cover_image'' = Inr (JStr ''a.png'')"
       "get_prop (ns ! 0) ''views'' = Inr JUndefined"
       "get_prop (ns ! 1) ''slug'' = Inr (JStr ''b'')"
       "get_prop (ns ! 1) ''cover_image'' = Inr JUndefined"
    using c0 c1 p0 p1 by (simp_all add: post_fields_def)
  with a b l o1 have "\<exists>ns. fst (getAll \<lparr>c_config = \<lparr>api = ''http://h''\<rparr>, c_blogId = ''b'', c_debug = True\<rparr>
               (\<lambda>_ _. Resolved ?res) []) = Inr (JArr ns)
          \<and> length ns = 2
          \<and> get_prop (ns ! 0) ''cover_image'' = Inr (JStr ''a.png'')
          \<and> get_prop (ns ! 0) ''views'' = Inr JUndefined
          \<and> get_prop (ns ! 1) ''slug'' = Inr (JStr ''b'')
          \<and> get_prop (ns ! 1) ''cover_image'' = Inr JUndefined
          \<and> has_own (ns ! 1) ''cover_image''"
    by auto
  moreover have "fst (posts_list \<lparr>f_api = ''http://h'', f_accessToken = ''t'', f_debug = True\<rparr>
          (\<lambda>_ _. Resolved ?res) None []) = Inr (JArr two_posts)"
    using t h4 by blast
  ultimately show ?thesis using h1 h2 h3 n1 by blast
qed

subsection \<open>The debug flag\<close>

lemma without_logs_append: "without_logs (a @ b) = without_logs a @ without_logs b"
  by (induction a rule: without_logs.induct) simp_all

lemma without_logs_createDebugger: "without_logs (createDebugger d args w) = without_logs w"
  by (simp add: createDebugger_def without_logs_append)

lemma without_logs_createLogger: "without_logs (createLogger d args w) = without_logs w"
  by (simp add: createLogger_def without_logs_append)

lemma getAll_without_logs:
  "without_logs (snd (getAll c fetch w)) =
     without_logs (snd (createClient_fetch c fetch ''posts'' public_init w))"
  by (simp add: getAll_def Let_def without_logs_createDebugger
      split: prod.splits sum.splits js_value.splits)

lemma posts_list_without_logs:
  "without_logs (snd (posts_list cfg fetch opts w)) =
     without_logs (snd (createFetcher cfg fetch ''posts'' (management_init opts) w))"
  by (simp add: posts_list_def without_logs_createLogger split: prod.splits sum.splits)

lemma posts_get_without_logs:
  "without_logs (snd (posts_get cfg fetch slug opts w)) =
     without_logs (snd (createFetcher cfg fetch (''post/'' @ slug) (management_init opts) w))"
  by (simp add: posts_get_def without_logs_createLogger split: prod.splits sum.splits)

lemma createClient_fetch_debug:
  "fst (createClient_fetch (c\<lparr>c_debug := d\<rparr>) fetch path opts w) =
     fst (createClient_fetch c fetch path opts w)
   \<and> without_logs (snd (createClient_fetch (c\<lparr>c_debug := d\<rparr>) fetch path opts w)) =
     without_logs (snd (createClient_fetch c fetch path opts w))"
  by (simp add: createClient_fetch_def Let_def without_logs_append without_logs_createDebugger
        throwError_def logError_def
      split: fetch_outcome.splits option.splits)

lemma createFetcher_debug:
  "fst (createFetcher (cfg\<lparr>f_debug := d\<rparr>) fetch path opts w) =
     fst (createFetcher cfg fetch path opts w)
   \<and> without_logs (snd (createFetcher (cfg\<lparr>f_debug := d\<rparr>) fetch path opts w)) =
     without_logs (snd (createFetcher cfg fetch path opts w))"
  by (simp add: createFetcher_def createFetcher_try_def Let_def without_logs_append
        without_logs_createLogger lib_throwError_def reqOpts_def
      split: fetch_outcome.splits option.splits)

text \<open>
  Claim C8. For every client, transport and trace, each of the four operations returns
  the same value or throws the same error whatever the debug flag is, and the two runs
  leave the same events apart from those of \<open>console.log\<close>: the same network calls and the
  same \<open>console.error\<close> events, in the same order. The same holds of the two factories:
  the debug option changes nothing of what they throw and of their events apart from
  \<open>console.log\<close>, and of the client they yield only the flag it holds.
\<close>

theorem debug_only_logs:
  "fst (getAll (c\<lparr>c_debug := d\<rparr>) fetch w) = fst (getAll c fetch w)
   \<and> without_logs (snd (getAll (c\<lparr>c_debug := d\<rparr>) fetch w)) = without_logs (snd (getAll c fetch w))
   \<and> fst (getBySlug (c\<lparr>c_debug := d\<rparr>) fetch slug w) = fst (getBySlug c fetch slug w)
   \<and> without_logs (snd (getBySlug (c\<lparr>c_debug := d\<rparr>) fetch slug w)) =
       without_logs (snd (getBySlug c fetch slug w))
   \<and> fst (posts_list (cfg\<lparr>f_debug := d\<rparr>) fetch opts w) = fst (posts_list cfg fetch opts w)
   \<and> without_logs (snd (posts_list (cfg\<lparr>f_debug := d\<rparr>) fetch opts w)) =
       without_logs (snd (posts_list cfg fetch opts w))
   \<and> fst (posts_get (cfg\<lparr>f_debug := d\<rparr>) fetch slug opts w) = fst (posts_get cfg fetch slug opts w)
   \<and> without_logs (snd (posts_get (cfg\<lparr>f_debug := d\<rparr>) fetch slug opts w)) =
       without_logs (snd (posts_get cfg fetch slug opts w))
   \<and> fst (createClient (copts\<lparr>debug := dbg\<rparr>) w) =
       map_sum id (\<lambda>c. c\<lparr>c_debug := or_false dbg\<rparr>) (fst (createClient copts w))
   \<and> without_logs (snd (createClient (copts\<lparr>debug := dbg\<rparr>) w)) =
       without_logs (snd (createClient copts w))
   \<and> createZenblogClient window_defined (zopts\<lparr>z_debug := dbg\<rparr>) w =
       (map_sum id (\<lambda>cfg. cfg\<lparr>f_debug := or_false dbg\<rparr>)
          (fst (createZenblogClient window_defined zopts w)),
        snd (createZenblogClient window_defined zopts w))"
proof -
  have ops:
    "fst (getAll (c\<lparr>c_debug := d\<rparr>) fetch w) = fst (getAll c fetch w)
     \<and> without_logs (snd (getAll (c\<lparr>c_debug := d\<rparr>) fetch w)) = without_logs (snd (getAll c fetch w))
     \<and> fst (getBySlug (c\<lparr>c_debug := d\<rparr>) fetch slug w) = fst (getBySlug c fetch slug w)
     \<and> without_logs (snd (getBySlug (c\<lparr>c_debug := d\<rparr>) fetch slug w)) =
         without_logs (snd (getBySlug c fetch slug w))
     \<and> fst (posts_list (cfg\<lparr>f_debug := d\<rparr>) fetch opts w) = fst (posts_list cfg fetch opts w)
     \<and> without_logs (snd (posts_list (cfg\<lparr>f_debug := d\<rparr>) fetch opts w)) =
         without_logs (snd (posts_list cfg fetch opts w))
     \<and> fst (posts_get (cfg\<lparr>f_debug := d\<rparr>) fetch slug opts w) = fst (posts_get cfg fetch slug opts w)
     \<and> without_logs (snd (posts_get (cfg\<lparr>f_debug := d\<rparr>) fetch slug opts w)) =
         without_logs (snd (posts_get cfg fetch slug opts w))"
    by (simp only: getAll_fst getAll_without_logs getBySlug_def posts_list_fst posts_get_fst
          posts_list_without_logs posts_get_without_logs createClient_fetch_debug
          createFetcher_debug simp_thms)
  have c1: "fst (createClient (copts\<lparr>debug := dbg\<rparr>) w) =
       map_sum id (\<lambda>c. c\<lparr>c_debug := or_false dbg\<rparr>) (fst (createClient copts w))"
    by (simp add: createClient_def Let_def throwError_def)
  have c2: "without_logs (snd (createClient (copts\<lparr>debug := dbg\<rparr>) w)) =
       without_logs (snd (createClient copts w))"
    by (simp add: createClient_def Let_def throwError_def logError_def without_logs_append
          without_logs_createDebugger)
  have c3: "createZenblogClient window_defined (zopts\<lparr>z_debug := dbg\<rparr>) w =
       (map_sum id (\<lambda>cfg. cfg\<lparr>f_debug := or_false dbg\<rparr>)
          (fst (createZenblogClient window_defined zopts w)),
        snd (createZenblogClient window_defined zopts w))"
    by (simp add: createZenblogClient_def lib_throwError_def)
  show ?thesis using ops c1 c2 c3 by blast
qed

end
